theory Spec2Isabelle
  imports Main "HOL-Library.AList"
begin

section \<open>Python values used by the compliance suite\<close>

text \<open>
  A Python \<open>dict\<close> keeps its keys in insertion order, so it is an association list:
  \<open>d.keys()\<close> lists the keys in order, \<open>d[k]\<close> raises \<open>KeyError\<close> on a missing key and
  \<open>d[k] = v\<close> overwrites in place or appends (\<open>AList.update\<close>).
\<close>

datatype py_error = KeyError string

type_synonym ('k, 'v) dict = "('k \<times> 'v) list"

definition dict_keys :: "('k, 'v) dict \<Rightarrow> 'k list" where
  "dict_keys d = map fst d"

definition dict_get :: "(string, 'v) dict \<Rightarrow> string \<Rightarrow> py_error + 'v" where
  "dict_get d k = (case map_of d k of None \<Rightarrow> Inl (KeyError k) | Some v \<Rightarrow> Inr v)"

text \<open>Iterating over a Python \<open>str\<close> yields its characters, each as a string of length one.\<close>

definition str_iter :: "string \<Rightarrow> string list" where
  "str_iter s = map (\<lambda>c. [c]) s"

section \<open>The raw result tree\<close>

record CaseRecord =
  cr_name :: string
  cr_description :: string
  cr_summary :: string
  cr_status :: int
  cr_audit :: "string list"

text \<open>
  \<open>tr_cases\<close> is \<open>test["message"]["api_component"]["cases"]\<close>, \<open>tr_result\<close> is
  \<open>test["result"]\<close>.
\<close>

record TestRecord =
  tr_name :: string
  tr_description :: string
  tr_text :: string
  tr_result :: int
  tr_parents :: "string list"
  tr_cases :: "CaseRecord list"

record summary_entry =
  se_result :: int
  se_name :: string

text \<open>
  The dictionary handed to \<open>scan_for_errors\<close> and \<open>convert_report_format\<close>. The key
  \<open>"high_level_summary"\<close> may be absent (\<open>None\<close>).
\<close>

record raw_tree =
  server_name :: string
  base_url :: string
  test_results :: "(string, (string, TestRecord list) dict) dict"
  high_level_summary :: "(string, summary_entry) dict option"

section \<open>scan_for_errors\<close>

text \<open>
  \<open>available_tests = ('project_get')\<close>: parentheses without a comma do not make a tuple, so
  the value is the string itself and \<open>for high_level_name in (available_tests)\<close> runs over
  its characters.
\<close>

definition available_tests :: string where
  "available_tests = ''project_get''"

text \<open>
  \<open>for test in server_tests: if high_level_name in test["parents"]: <string literal>\<close>.
  The body of the \<open>if\<close> is a bare string literal, an expression statement without effect, so
  both branches leave \<open>result\<close> as it is.
\<close>

fun scan_server_tests :: "string \<Rightarrow> TestRecord list \<Rightarrow> int \<Rightarrow> int" where
  "scan_server_tests high_level_name [] result = result"
| "scan_server_tests high_level_name (test # server_tests) result =
     (if high_level_name \<in> set (tr_parents test)
      then scan_server_tests high_level_name server_tests result
      else scan_server_tests high_level_name server_tests result)"

text \<open>The loop over \<open>high_level_name\<close>: \<open>result = 1\<close>, the loop over the tests, the entry.\<close>

fun scan_high_level_names ::
  "string list \<Rightarrow> TestRecord list \<Rightarrow> (string, summary_entry) dict \<Rightarrow> (string, summary_entry) dict"
where
  "scan_high_level_names [] server_tests hls = hls"
| "scan_high_level_names (high_level_name # names) server_tests hls =
     (let result = scan_server_tests high_level_name server_tests 1
      in scan_high_level_names names server_tests
           (AList.update high_level_name
              \<lparr>se_result = result, se_name = high_level_name\<rparr> hls))"

text \<open>
  The loop over the object ids of one object type. The state is the local dictionary
  \<open>high_level_summary\<close> and the input dictionary; an exception leaves the state as it is at
  that point. The input dictionary holds a reference to the local one after the first
  assignment; the local one changes only between two assignments, where nothing can raise,
  so storing its value at each assignment gives the same dictionary at every exit.
\<close>

fun scan_obj_ids ::
  "string \<Rightarrow> string list \<Rightarrow> (string, summary_entry) dict \<times> raw_tree
     \<Rightarrow> py_error option \<times> (string, summary_entry) dict \<times> raw_tree"
where
  "scan_obj_ids obj_type [] (hls, json) = (None, hls, json)"
| "scan_obj_ids obj_type (obj_id # ids) (hls, json) =
     (case dict_get (test_results json) obj_type of
        Inl e \<Rightarrow> (Some e, hls, json)
      | Inr d \<Rightarrow>
          (case dict_get d obj_id of
             Inl e \<Rightarrow> (Some e, hls, json)
           | Inr server_tests \<Rightarrow>
               (let hls' = scan_high_level_names (str_iter available_tests) server_tests hls
                in scan_obj_ids obj_type ids (hls', json\<lparr>high_level_summary := Some hls'\<rparr>))))"

fun scan_obj_types ::
  "string list \<Rightarrow> (string, summary_entry) dict \<times> raw_tree
     \<Rightarrow> py_error option \<times> (string, summary_entry) dict \<times> raw_tree"
where
  "scan_obj_types [] (hls, json) = (None, hls, json)"
| "scan_obj_types (obj_type # types) (hls, json) =
     (case dict_get (test_results json) obj_type of
        Inl e \<Rightarrow> (Some e, hls, json)
      | Inr d \<Rightarrow>
          (case scan_obj_ids obj_type (dict_keys d) (hls, json) of
             (Some e, s) \<Rightarrow> (Some e, s)
           | (None, s) \<Rightarrow> scan_obj_types types s))"

text \<open>
  \<open>scan_for_errors\<close> returns nothing; its effect is the mutation of its argument. The model
  returns the exception raised, if any, and the dictionary as the call leaves it.
\<close>

definition scan_for_errors :: "raw_tree \<Rightarrow> py_error option \<times> raw_tree" where
  "scan_for_errors json =
     (case scan_obj_types [''projects'', ''studies'', ''expressions''] ([], json) of
        (e, hls, json') \<Rightarrow> (e, json'))"

section \<open>The standardized report\<close>

text \<open>
  Modelled from the spec: the classes \<open>Report\<close>, \<open>Phase\<close>, \<open>Test\<close> and \<open>Case\<close> of
  \<open>ga4gh.testbed.report\<close> are imported, not part of the sources. Each is a record of the
  attributes that the setters called by \<open>convert_report_format\<close> write: names, descriptions
  and messages, the ordered children, the log messages, start and end timestamps, the
  finalized flag. An attribute that the converter may leave unwritten is an option, \<open>None\<close>
  meaning that no setter was called on it.
\<close>

datatype Status = PASS | SKIP | FAIL | UNKNOWN

type_synonym timestamp = nat

record Case =
  case_name :: string
  case_description :: string
  case_message :: string
  log_messages :: "string list"
  case_status :: "Status option"
  case_end_time :: "timestamp option"

record Test =
  test_name :: string
  test_description :: string
  test_message :: string
  test_cases :: "Case list"
  test_end_time :: "timestamp option"

record Phase =
  phase_name :: string
  phase_start_time :: "timestamp option"
  phase_tests :: "Test list"
  phase_end_time :: "timestamp option"

record Report =
  start_time :: "timestamp option"
  testbed_name :: string
  platform_name :: string
  input_parameters :: "(string, string) dict"
  phases :: "Phase list"
  end_time :: "timestamp option"
  finalized :: bool

section \<open>convert_report_format\<close>

text \<open>
  Every \<open>set_..._time_now()\<close> reads the system clock. The clock is a function from the
  number of reads made so far to the time read; the converter threads that number.
\<close>

type_synonym clock = "nat \<Rightarrow> timestamp"

text \<open>\<open>for log_message in case["audit"]: ga4gh_case.add_log_message(log_message)\<close>\<close>

fun add_log_messages :: "string list \<Rightarrow> string list \<Rightarrow> string list" where
  "add_log_messages log [] = log"
| "add_log_messages log (log_message # audit) = add_log_messages (log @ [log_message]) audit"

text \<open>The \<open>if\<close>/\<open>elif\<close> chain on \<open>case["status"]\<close>; it has no \<open>else\<close>.\<close>

definition update_status :: "int \<Rightarrow> Status option \<Rightarrow> Status option" where
  "update_status status current =
     (if status = 1 then Some PASS
      else if status = 0 then Some SKIP
      else if status = - 1 then Some FAIL
      else if status = 2 then Some UNKNOWN
      else current)"

definition convert_case :: "clock \<Rightarrow> nat \<Rightarrow> CaseRecord \<Rightarrow> Case \<times> nat" where
  "convert_case clk n c =
     (\<lparr>case_name = cr_name c,
       case_description = cr_description c,
       case_message = cr_summary c,
       log_messages = add_log_messages [] (cr_audit c),
       case_status = update_status (cr_status c) None,
       case_end_time = Some (clk n)\<rparr>, Suc n)"

fun convert_cases :: "clock \<Rightarrow> nat \<Rightarrow> CaseRecord list \<Rightarrow> Case list \<times> nat" where
  "convert_cases clk n [] = ([], n)"
| "convert_cases clk n (c # cs) =
     (case convert_case clk n c of
        (ga4gh_case, n1) \<Rightarrow>
          (case convert_cases clk n1 cs of
             (rest, n2) \<Rightarrow> (ga4gh_case # rest, n2)))"

text \<open>The body of \<open>for test in server_tests\<close>; the guard is \<open>test["result"] != 0\<close>.\<close>

definition convert_test :: "clock \<Rightarrow> nat \<Rightarrow> TestRecord \<Rightarrow> Test \<times> nat" where
  "convert_test clk n test =
     (case (if tr_result test \<noteq> 0 then convert_cases clk n (tr_cases test) else ([], n)) of
        (cases, n1) \<Rightarrow>
          (\<lparr>test_name = tr_name test,
            test_description = tr_description test,
            test_message = tr_text test,
            test_cases = cases,
            test_end_time = Some (clk n1)\<rparr>, Suc n1))"

fun convert_server_tests :: "clock \<Rightarrow> nat \<Rightarrow> TestRecord list \<Rightarrow> Test list \<times> nat" where
  "convert_server_tests clk n [] = ([], n)"
| "convert_server_tests clk n (test # server_tests) =
     (case convert_test clk n test of
        (ga4gh_test, n1) \<Rightarrow>
          (case convert_server_tests clk n1 server_tests of
             (rest, n2) \<Rightarrow> (ga4gh_test # rest, n2)))"

text \<open>
  \<open>for high_level_name in (available_tests): for test in server_tests: ...\<close>. The loop
  variable is not used in the body: each round adds all the tests again.
\<close>

fun convert_high_level_names ::
  "clock \<Rightarrow> nat \<Rightarrow> string list \<Rightarrow> TestRecord list \<Rightarrow> Test list \<times> nat"
where
  "convert_high_level_names clk n [] server_tests = ([], n)"
| "convert_high_level_names clk n (high_level_name # names) server_tests =
     (case convert_server_tests clk n server_tests of
        (added, n1) \<Rightarrow>
          (case convert_high_level_names clk n1 names server_tests of
             (rest, n2) \<Rightarrow> (added @ rest, n2)))"

fun convert_obj_ids ::
  "clock \<Rightarrow> nat \<Rightarrow> raw_tree \<Rightarrow> string \<Rightarrow> string list \<Rightarrow> py_error + (Test list \<times> nat)"
where
  "convert_obj_ids clk n json obj_type [] = Inr ([], n)"
| "convert_obj_ids clk n json obj_type (obj_id # ids) =
     (case dict_get (test_results json) obj_type of
        Inl e \<Rightarrow> Inl e
      | Inr d \<Rightarrow>
          (case dict_get d obj_id of
             Inl e \<Rightarrow> Inl e
           | Inr server_tests \<Rightarrow>
               (case convert_high_level_names clk n (str_iter available_tests) server_tests of
                  (added, n1) \<Rightarrow>
                    (case convert_obj_ids clk n1 json obj_type ids of
                       Inl e \<Rightarrow> Inl e
                     | Inr (rest, n2) \<Rightarrow> Inr (added @ rest, n2)))))"

text \<open>One round of \<open>for obj_type in [...]\<close>: the phase is opened, filled and closed.\<close>

definition convert_phase ::
  "clock \<Rightarrow> nat \<Rightarrow> raw_tree \<Rightarrow> string \<Rightarrow> py_error + (Phase \<times> nat)"
where
  "convert_phase clk n json obj_type =
     (case dict_get (test_results json) obj_type of
        Inl e \<Rightarrow> Inl e
      | Inr d \<Rightarrow>
          (case convert_obj_ids clk (Suc n) json obj_type (dict_keys d) of
             Inl e \<Rightarrow> Inl e
           | Inr (tests, n1) \<Rightarrow>
               Inr (\<lparr>phase_name = obj_type,
                     phase_start_time = Some (clk n),
                     phase_tests = tests,
                     phase_end_time = Some (clk n1)\<rparr>, Suc n1)))"

fun convert_obj_types ::
  "clock \<Rightarrow> nat \<Rightarrow> raw_tree \<Rightarrow> string list \<Rightarrow> py_error + (Phase list \<times> nat)"
where
  "convert_obj_types clk n json [] = Inr ([], n)"
| "convert_obj_types clk n json (obj_type # types) =
     (case convert_phase clk n json obj_type of
        Inl e \<Rightarrow> Inl e
      | Inr (ga4gh_phase, n1) \<Rightarrow>
          (case convert_obj_types clk n1 json types of
             Inl e \<Rightarrow> Inl e
           | Inr (rest, n2) \<Rightarrow> Inr (ga4gh_phase # rest, n2)))"

text \<open>
  The converter, started when \<open>n\<close> clock reads have been made. An exception leaves no
  report (\<open>Inl\<close>).
\<close>

definition convert_report_format :: "clock \<Rightarrow> nat \<Rightarrow> raw_tree \<Rightarrow> py_error + Report" where
  "convert_report_format clk n json =
     (case convert_obj_types clk (Suc n) json
             [''projects'', ''studies'', ''expressions'', ''continuous''] of
        Inl e \<Rightarrow> Inl e
      | Inr (ga4gh_phases, n1) \<Rightarrow>
          Inr \<lparr>start_time = Some (clk n),
               testbed_name = ''rnaget-compliance-suite'',
               platform_name = server_name json,
               input_parameters = AList.update ''base_url'' (base_url json) [],
               phases = ga4gh_phases,
               end_time = Some (clk n1),
               finalized = True\<rparr>)"

text \<open>The report with every timestamp removed, at each of its four levels.\<close>

definition erase_case :: "Case \<Rightarrow> Case" where
  "erase_case c = c\<lparr>case_end_time := None\<rparr>"

definition erase_test :: "Test \<Rightarrow> Test" where
  "erase_test t = t\<lparr>test_cases := map erase_case (test_cases t), test_end_time := None\<rparr>"

definition erase_phase :: "Phase \<Rightarrow> Phase" where
  "erase_phase p =
     p\<lparr>phase_start_time := None, phase_tests := map erase_test (phase_tests p),
       phase_end_time := None\<rparr>"

definition erase_report :: "Report \<Rightarrow> Report" where
  "erase_report r =
     r\<lparr>start_time := None, phases := map erase_phase (phases r), end_time := None\<rparr>"

definition erase_result :: "py_error + Report \<Rightarrow> py_error + Report" where
  "erase_result res = (case res of Inl e \<Rightarrow> Inl e | Inr r \<Rightarrow> Inr (erase_report r))"

section \<open>report\<close>

text \<open>
  A Python \<open>str\<close> is a sequence of code points; the command-line strings are modelled on the
  code points U+0000 to U+00FF, one \<open>char\<close> each. On these, \<open>str.isdigit\<close> holds of the
  ASCII digits and of the superscript digits U+00B2, U+00B3 and U+00B9, and a string is
  \<open>isdigit\<close> when it is not empty and all its characters are.
\<close>

definition isdigit_char :: "char \<Rightarrow> bool" where
  "isdigit_char c =
     (let n = (of_char c :: nat)
      in (48 \<le> n \<and> n \<le> 57) \<or> n = 178 \<or> n = 179 \<or> n = 185)"

definition isdigit :: "string \<Rightarrow> bool" where
  "isdigit s = (s \<noteq> [] \<and> list_all isdigit_char s)"

text \<open>The decimal digits \<open>0\<close> to \<open>9\<close>.\<close>

definition decimal_digit :: "char \<Rightarrow> bool" where
  "decimal_digit c = (let n = (of_char c :: nat) in 48 \<le> n \<and> n \<le> 57)"

record cli_args =
  user_config :: "string option"
  output_dir :: string
  serve :: bool
  uptime :: string
  no_tar :: bool
  force :: bool
  pretty :: bool

datatype report_exn =
    ArgumentException string
  | UserConfigException string
  | FileNotFoundError string
  | OtherException string

text \<open>
  What the process does that can be observed: log lines, flushes, the usage message
  (\<open>click.echo(report.get_help(ctx))\<close>), printed lines, and the start of the tests
  (\<open>test_report\<close>, the first network activity).
\<close>

datatype event =
    LogInfo string
  | StdoutFlush
  | EchoHelp
  | Print string
  | TestsStarted
  | Traceback

text \<open>
  The two checks that open the \<open>try\<close> block. \<open>not user_config\<close> holds of \<open>None\<close> and of the
  empty string.
\<close>

definition report_checks :: "cli_args \<Rightarrow> event list \<times> (report_exn + unit)" where
  "report_checks args =
     (case user_config args of
        None \<Rightarrow>
          ([], Inl (ArgumentException
             (''No user config file provided. Specify path to yaml file with '' @ ''-c'')))
      | Some path \<Rightarrow>
          if path = [] then
            ([], Inl (ArgumentException
               (''No user config file provided. Specify path to yaml file with '' @ ''-c'')))
          else if \<not> isdigit (uptime args) then
            ([LogInfo (''parsing config file: '' @ path), StdoutFlush],
             Inl (ArgumentException ''Server uptime is not a valid integer.''))
          else
            ([LogInfo (''parsing config file: '' @ path), StdoutFlush], Inr ()))"

text \<open>
  The \<open>except\<close> clauses: the usage message, a line naming the error, \<open>sys.exit(1)\<close>. An
  exception of another class is not caught: the interpreter prints the traceback and the
  exit code is 1. A normal return gives exit code 0.
\<close>

definition report_handlers :: "event list \<Rightarrow> report_exn + unit \<Rightarrow> event list \<times> int" where
  "report_handlers evs res =
     (case res of
        Inl (ArgumentException e) \<Rightarrow>
          (evs @ [EchoHelp, Print ([CHR 0x0A] @ e @ [CHR 0x0A])], 1)
      | Inl (UserConfigException e) \<Rightarrow>
          (evs @ [EchoHelp, Print (''Error with YAML file: '' @ e @ [CHR 0x0A])], 1)
      | Inl (FileNotFoundError e) \<Rightarrow>
          (evs @ [EchoHelp, Print ([CHR 0x0A] @ e @ [CHR 0x0A])], 1)
      | Inl (OtherException e) \<Rightarrow> (evs @ [Traceback], 1)
      | Inr u \<Rightarrow> (evs, 0))"

text \<open>
  The command. The rest of the \<open>try\<close> block (parsing and validating the configuration file,
  preparing the output directory, \<open>test_report\<close>, writing the results, the archive and the
  server) uses modules that are not part of the sources; it is the parameter \<open>rest\<close>, which
  gives the events of that part and how it ends.
\<close>

definition report ::
  "(cli_args \<Rightarrow> event list \<times> (report_exn + unit)) \<Rightarrow> cli_args \<Rightarrow> event list \<times> int"
where
  "report rest args =
     (case report_checks args of
        (evs, Inl e) \<Rightarrow>
          report_handlers (LogInfo ''starting RNAGet compliance testing'' # evs) (Inl e)
      | (evs, Inr u) \<Rightarrow>
          (case rest args of
             (evs', res) \<Rightarrow>
               report_handlers
                 (LogInfo ''starting RNAGet compliance testing'' # evs @ evs') res))"

section \<open>Predicates used in the proofs\<close>

text \<open>The second dictionary is the first one, up to the value at \<open>"high_level_summary"\<close>.\<close>

definition same_frame :: "raw_tree \<Rightarrow> raw_tree \<Rightarrow> bool" where
  "same_frame j j' = (j' = j\<lparr>high_level_summary := high_level_summary j'\<rparr>)"



text \<open>The result of the inner loops, tests or phases or the exception, without the timestamps
  and the count of clock reads.\<close>

definition erase_tests :: "py_error + (Test list \<times> nat) \<Rightarrow> py_error + Test list" where
  "erase_tests res = (case res of Inl e \<Rightarrow> Inl e | Inr (tests, n) \<Rightarrow> Inr (map erase_test tests))"

definition erase_phases :: "py_error + (Phase list \<times> nat) \<Rightarrow> py_error + Phase list" where
  "erase_phases res = (case res of Inl e \<Rightarrow> Inl e | Inr (ps, n) \<Rightarrow> Inr (map erase_phase ps))"

text \<open>Every entry of the summary has result 1.\<close>

definition all_pass :: "(string, summary_entry) dict \<Rightarrow> bool" where
  "all_pass hls = list_all (\<lambda>kv. se_result (snd kv) = 1) hls"

text \<open>
  The state of the aggregator's loops: the local summary has only results 1, and the
  dictionary holds what it held at the start, or a summary with only results 1.
\<close>

definition rollup_state ::
  "(string, summary_entry) dict option \<Rightarrow> (string, summary_entry) dict \<times> raw_tree \<Rightarrow> bool" where
  "rollup_state h0 s =
     (all_pass (fst s)
      \<and> (high_level_summary (snd s) = h0
         \<or> (case high_level_summary (snd s) of None \<Rightarrow> False | Some hls \<Rightarrow> all_pass hls)))"

section \<open>Sample inputs\<close>

definition tick :: clock where
  "tick i = i"

definition case_404 :: CaseRecord where
  "case_404 =
     \<lparr>cr_name = ''status code'', cr_description = ''response has the status code expected'',
      cr_summary = ''status code 404'', cr_status = - 1,
      cr_audit = [''GET /projects/123456789'', ''404'']\<rparr>"

definition case_ok :: CaseRecord where
  "case_ok =
     \<lparr>cr_name = ''status code'', cr_description = ''response has the status code expected'',
      cr_summary = ''status code 200'', cr_status = 1,
      cr_audit = [''GET /projects/43378a5d'', ''200'']\<rparr>"

definition project_get_failed :: TestRecord where
  "project_get_failed =
     \<lparr>tr_name = ''project_get'', tr_description = ''get a project by id'',
      tr_text = ''failed'', tr_result = - 1, tr_parents = [''project_get''],
      tr_cases = [case_404]\<rparr>"

definition project_get_passed :: TestRecord where
  "project_get_passed =
     \<lparr>tr_name = ''project_get'', tr_description = ''get a project by id'',
      tr_text = ''passed'', tr_result = 1, tr_parents = [''project_get''],
      tr_cases = [case_ok]\<rparr>"

definition project_get_skipped :: TestRecord where
  "project_get_skipped =
     \<lparr>tr_name = ''project_get'', tr_description = ''get a project by id'',
      tr_text = ''skipped'', tr_result = 0, tr_parents = [''project_get''],
      tr_cases = [case_ok]\<rparr>"

definition tree_of :: "(string, (string, TestRecord list) dict) dict \<Rightarrow> raw_tree" where
  "tree_of results =
     \<lparr>server_name = ''Server A'', base_url = ''http://localhost:5000/'',
      test_results = results, high_level_summary = None\<rparr>"

text \<open>One project instance, whose only test failed.\<close>

definition failed_tree :: raw_tree where
  "failed_tree =
     tree_of [(''projects'', [(''123456789'', [project_get_failed])]),
              (''studies'', []), (''expressions'', []), (''continuous'', [])]"

text \<open>One project instance, whose only test passed.\<close>

definition passed_tree :: raw_tree where
  "passed_tree =
     tree_of [(''projects'', [(''43378a5d'', [project_get_passed])]),
              (''studies'', []), (''expressions'', []), (''continuous'', [])]"

text \<open>One project instance, whose only test was skipped.\<close>

definition skipped_tree :: raw_tree where
  "skipped_tree =
     tree_of [(''projects'', [(''43378a5d'', [project_get_skipped])]),
              (''studies'', []), (''expressions'', []), (''continuous'', [])]"



text \<open>A failed test with a case whose status code is 7.\<close>

definition case_status7 :: CaseRecord where
  "case_status7 = case_404\<lparr>cr_status := 7\<rparr>"

definition project_get_status7 :: TestRecord where
  "project_get_status7 = project_get_failed\<lparr>tr_cases := [case_status7]\<rparr>"

definition status7_tree :: raw_tree where
  "status7_tree =
     tree_of [(''projects'', [(''123456789'', [project_get_status7])]),
              (''studies'', []), (''expressions'', []), (''continuous'', [])]"

text \<open>One entry, with result 1, for each distinct character of \<open>project_get\<close>.\<close>

definition character_entries :: "(string, summary_entry) dict" where
  "character_entries =
     map (\<lambda>h. (h, \<lparr>se_result = 1, se_name = h\<rparr>))
       [''p'', ''r'', ''o'', ''j'', ''e'', ''c'', ''t'', ''_'', ''g'']"

text \<open>The report of \<open>skipped_tree\<close> and the report of \<open>failed_tree\<close>, on the clock \<open>tick\<close>.\<close>

definition skipped_report :: Report where
  "skipped_report =
     \<lparr>start_time = Some 0,
      testbed_name = ''rnaget-compliance-suite'',
      platform_name = ''Server A'',
      input_parameters = [(''base_url'', ''http://localhost:5000/'')],
      phases =
        [\<lparr>phase_name = ''projects'', phase_start_time = Some 1,
          phase_tests =
            map (\<lambda>i. \<lparr>test_name = ''project_get'', test_description = ''get a project by id'',
                       test_message = ''skipped'', test_cases = [], test_end_time = Some i\<rparr>)
              [2 ..< 13],
          phase_end_time = Some 13\<rparr>,
         \<lparr>phase_name = ''studies'', phase_start_time = Some 14, phase_tests = [],
          phase_end_time = Some 15\<rparr>,
         \<lparr>phase_name = ''expressions'', phase_start_time = Some 16, phase_tests = [],
          phase_end_time = Some 17\<rparr>,
         \<lparr>phase_name = ''continuous'', phase_start_time = Some 18, phase_tests = [],
          phase_end_time = Some 19\<rparr>],
      end_time = Some 20,
      finalized = True\<rparr>"

definition failed_report :: Report where
  "failed_report =
     \<lparr>start_time = Some 0,
      testbed_name = ''rnaget-compliance-suite'',
      platform_name = ''Server A'',
      input_parameters = [(''base_url'', ''http://localhost:5000/'')],
      phases =
        [\<lparr>phase_name = ''projects'', phase_start_time = Some 1,
          phase_tests =
            map (\<lambda>i. \<lparr>test_name = ''project_get'', test_description = ''get a project by id'',
                       test_message = ''failed'',
                       test_cases =
                         [\<lparr>case_name = ''status code'',
                           case_description = ''response has the status code expected'',
                           case_message = ''status code 404'',
                           log_messages = [''GET /projects/123456789'', ''404''],
                           case_status = Some FAIL,
                           case_end_time = Some (2 + 2 * i)\<rparr>],
                       test_end_time = Some (3 + 2 * i)\<rparr>)
              [0 ..< 11],
          phase_end_time = Some 24\<rparr>,
         \<lparr>phase_name = ''studies'', phase_start_time = Some 25, phase_tests = [],
          phase_end_time = Some 26\<rparr>,
         \<lparr>phase_name = ''expressions'', phase_start_time = Some 27, phase_tests = [],
          phase_end_time = Some 28\<rparr>,
         \<lparr>phase_name = ''continuous'', phase_start_time = Some 29, phase_tests = [],
          phase_end_time = Some 30\<rparr>],
      end_time = Some 31,
      finalized = True\<rparr>"

text \<open>
  A command line whose uptime is the one character U+00B2, superscript two, and a rest of
  the command that starts the tests and returns.
\<close>

definition superscript_args :: cli_args where
  "superscript_args =
     \<lparr>user_config = Some ''config.yaml'', output_dir = ''rnaget-compliance-results'',
      serve = False, uptime = [CHR 0xB2], no_tar = False, force = False, pretty = False\<rparr>"

definition tests_then_return :: "cli_args \<Rightarrow> event list \<times> (report_exn + unit)" where
  "tests_then_return args = ([TestsStarted], Inr ())"

section \<open>Dictionaries\<close>

lemma dict_get_keys: "k \<in> set (dict_keys d) \<Longrightarrow> \<exists>v. dict_get d k = Inr v"
  by (cases "map_of d k") (auto simp: dict_get_def dict_keys_def map_of_eq_None_iff)

lemma dict_get_Inr_key: "dict_get d k = Inr v \<Longrightarrow> k \<in> set (dict_keys d)"
  by (auto simp: dict_get_def dict_keys_def split: option.splits dest!: map_of_SomeD
      intro: rev_image_eqI)

section \<open>The aggregator\<close>

lemma scan_server_tests_result: "scan_server_tests h ts r = r"
  by (induction ts) auto

lemma same_frame_refl: "same_frame j j"
  by (simp add: same_frame_def)

lemma same_frame_update: "same_frame (j\<lparr>high_level_summary := h\<rparr>) j' \<Longrightarrow> same_frame j j'"
  unfolding same_frame_def
  by (cases j, cases j') simp

lemma same_frame_trans: "same_frame j j1 \<Longrightarrow> same_frame j1 j2 \<Longrightarrow> same_frame j j2"
  unfolding same_frame_def
  by (cases j, cases j1, cases j2) simp

lemma scan_obj_ids_frame: "same_frame j (snd (snd (scan_obj_ids ty ids (hls, j))))"
proof (induction ids arbitrary: hls j)
  case Nil
  show ?case by (simp add: same_frame_refl)
next
  case (Cons obj_id ids)
  show ?case
    by (auto simp: Let_def same_frame_refl split: sum.splits
        intro: same_frame_update Cons.IH)
qed

lemma scan_obj_types_frame: "same_frame j (snd (snd (scan_obj_types tys (hls, j))))"
proof (induction tys arbitrary: hls j)
  case Nil
  show ?case by (simp add: same_frame_refl)
next
  case (Cons ty tys)
  show ?case
  proof (cases "dict_get (test_results j) ty")
    case (Inl e)
    then show ?thesis by (simp add: same_frame_refl)
  next
    case (Inr d)
    obtain e hls1 j1 where r: "scan_obj_ids ty (dict_keys d) (hls, j) = (e, hls1, j1)"
      by (cases "scan_obj_ids ty (dict_keys d) (hls, j)") auto
    from scan_obj_ids_frame [of j ty "dict_keys d" hls] r
    have f1: "same_frame j j1" by simp
    show ?thesis
    proof (cases e)
      case None
      from Cons.IH [of j1 hls1]
      have "same_frame j1 (snd (snd (scan_obj_types tys (hls1, j1))))" .
      with f1 have "same_frame j (snd (snd (scan_obj_types tys (hls1, j1))))"
        by (rule same_frame_trans)
      with None Inr r show ?thesis by simp
    next
      case (Some a)
      with Inr r f1 show ?thesis by simp
    qed
  qed
qed

text \<open>
  C9. Whatever dictionary \<open>scan_for_errors\<close> is given, and whether it returns or raises, the
  dictionary it leaves is the one it was given with at most the value at
  \<open>"high_level_summary"\<close> changed: \<open>"server_name"\<close>, \<open>"base_url"\<close> and \<open>"test_results"\<close>, with
  every test record and case record below, are as before.
\<close>

theorem scan_for_errors_frame:
  "\<exists>h. snd (scan_for_errors json) = json\<lparr>high_level_summary := h\<rparr>"
proof -
  obtain e hls j' where
    r: "scan_obj_types [''projects'', ''studies'', ''expressions''] ([], json) = (e, hls, j')"
    by (rule prod_cases3)
  from scan_obj_types_frame [of json "[''projects'', ''studies'', ''expressions'']" "[]"]
  have "same_frame json j'" by (simp only: r snd_conv)
  moreover have "snd (scan_for_errors json) = j'"
    by (simp only: scan_for_errors_def r prod.case snd_conv)
  ultimately show ?thesis unfolding same_frame_def by blast
qed

text \<open>
  The rollup never leaves 1: whatever the statuses of the tests, a summary that
  \<open>scan_for_errors\<close> stores has result 1 in every entry.
\<close>

lemma all_pass_update:
  "all_pass hls \<Longrightarrow> all_pass (AList.update h \<lparr>se_result = 1, se_name = h\<rparr> hls)"
  by (induction hls) (auto simp: all_pass_def)

lemma scan_high_level_names_pass:
  "all_pass hls \<Longrightarrow> all_pass (scan_high_level_names ns ts hls)"
  by (induction ns arbitrary: hls)
     (simp_all add: Let_def scan_server_tests_result all_pass_update)

lemma scan_obj_ids_pass:
  "rollup_state h0 (hls, j) \<Longrightarrow> rollup_state h0 (snd (scan_obj_ids ty ids (hls, j)))"
proof (induction ids arbitrary: hls j)
  case Nil
  then show ?case by simp
next
  case (Cons obj_id ids)
  have step: "rollup_state h0 (scan_high_level_names ns ts hls,
      j\<lparr>high_level_summary := Some (scan_high_level_names ns ts hls)\<rparr>)" for ns ts
    using Cons.prems by (simp add: rollup_state_def scan_high_level_names_pass)
  show ?case
    using Cons.prems
    by (auto simp: Let_def split: sum.splits intro!: Cons.IH step)
qed

lemma scan_obj_types_pass:
  "rollup_state h0 (hls, j) \<Longrightarrow> rollup_state h0 (snd (scan_obj_types tys (hls, j)))"
proof (induction tys arbitrary: hls j)
  case Nil
  then show ?case by simp
next
  case (Cons ty tys)
  show ?case
  proof (cases "dict_get (test_results j) ty")
    case (Inl e)
    with Cons.prems show ?thesis by simp
  next
    case (Inr d)
    obtain e hls1 j1 where r: "scan_obj_ids ty (dict_keys d) (hls, j) = (e, hls1, j1)"
      by (rule prod_cases3)
    from scan_obj_ids_pass [OF Cons.prems, of ty "dict_keys d"] r
    have s1: "rollup_state h0 (hls1, j1)" by simp
    show ?thesis
    proof (cases e)
      case None
      with Inr r Cons.IH [OF s1] show ?thesis by simp
    next
      case (Some a)
      with Inr r s1 show ?thesis by simp
    qed
  qed
qed

lemma scan_for_errors_always_pass:
  "high_level_summary (snd (scan_for_errors json)) = high_level_summary json
   \<or> (\<exists>hls. high_level_summary (snd (scan_for_errors json)) = Some hls
         \<and> list_all (\<lambda>kv. se_result (snd kv) = 1) hls)"
proof -
  let ?tys = "[''projects'', ''studies'', ''expressions'']"
  obtain e hls j' where r: "scan_obj_types ?tys ([], json) = (e, hls, j')"
    by (rule prod_cases3)
  have "rollup_state (high_level_summary json) ([], json)"
    by (simp add: rollup_state_def all_pass_def)
  from scan_obj_types_pass [OF this, of ?tys]
  have "rollup_state (high_level_summary json) (hls, j')" by (simp only: r snd_conv)
  moreover have "snd (scan_for_errors json) = j'"
    by (simp only: scan_for_errors_def r prod.case snd_conv)
  ultimately show ?thesis
    by (auto simp: rollup_state_def all_pass_def split: option.splits)
qed

text \<open>
  C1. The rollup of the source on a tree whose only test, a member of the capability
  \<open>project_get\<close>, failed: the summary has one entry for each distinct character of
  \<open>project_get\<close>, every one with result 1 (pass), and no entry for \<open>project_get\<close>. The
  worst status among the members of \<open>project_get\<close> is -1.
\<close>

theorem scan_for_errors_failed_tree:
  "scan_for_errors failed_tree =
     (None, failed_tree\<lparr>high_level_summary := Some character_entries\<rparr>)"
  by code_simp










lemma scan_for_errors_nothing_scanned:
  assumes "dict_get (test_results json) ''projects'' = Inr []"
    and "dict_get (test_results json) ''studies'' = Inr []"
    and "dict_get (test_results json) ''expressions'' = Inr []"
  shows "scan_for_errors json = (None, json)"
  using assms by (simp add: scan_for_errors_def dict_keys_def)




section \<open>The converter\<close>

lemma add_log_messages_append: "add_log_messages log audit = log @ audit"
  by (induction audit arbitrary: log) auto

lemma convert_case_snd: "snd (convert_case clk n c) = Suc n"
  by (simp add: convert_case_def)

lemma convert_cases_Cons:
  "fst (convert_cases clk n (c # cs)) =
     fst (convert_case clk n c) # fst (convert_cases clk (snd (convert_case clk n c)) cs)"
  by (simp split: prod.splits)

lemma convert_server_tests_Cons:
  "fst (convert_server_tests clk n (t # ts)) =
     fst (convert_test clk n t) # fst (convert_server_tests clk (snd (convert_test clk n t)) ts)"
  by (simp split: prod.splits)

lemma convert_high_level_names_Cons:
  "fst (convert_high_level_names clk n (h # hs) ts) =
     fst (convert_server_tests clk n ts)
     @ fst (convert_high_level_names clk (snd (convert_server_tests clk n ts)) hs ts)"
  by (simp split: prod.splits)

subsection \<open>Timestamps aside, the clock does not matter\<close>

lemma convert_case_erase:
  "erase_case (fst (convert_case clk n c)) = erase_case (fst (convert_case clk' n' c))"
  by (simp add: convert_case_def erase_case_def)

lemma convert_cases_erase:
  "map erase_case (fst (convert_cases clk n cs)) = map erase_case (fst (convert_cases clk' n' cs))"
proof (induction cs arbitrary: n n')
  case Nil
  show ?case by simp
next
  case (Cons c cs)
  show ?case
    unfolding convert_cases_Cons list.map
    using convert_case_erase [of clk n c clk' n']
      Cons.IH [of "snd (convert_case clk n c)" "snd (convert_case clk' n' c)"]
    by (simp only:)
qed

lemma convert_test_erase:
  "erase_test (fst (convert_test clk n t)) = erase_test (fst (convert_test clk' n' t))"
  using convert_cases_erase [of clk n "tr_cases t" clk' n']
  by (auto simp: convert_test_def erase_test_def split: prod.splits)

lemma convert_server_tests_erase:
  "map erase_test (fst (convert_server_tests clk n ts))
     = map erase_test (fst (convert_server_tests clk' n' ts))"
proof (induction ts arbitrary: n n')
  case Nil
  show ?case by simp
next
  case (Cons t ts)
  show ?case
    unfolding convert_server_tests_Cons list.map
    using convert_test_erase [of clk n t clk' n']
      Cons.IH [of "snd (convert_test clk n t)" "snd (convert_test clk' n' t)"]
    by (simp only:)
qed

lemma convert_high_level_names_erase:
  "map erase_test (fst (convert_high_level_names clk n hs ts))
     = map erase_test (fst (convert_high_level_names clk' n' hs ts))"
proof (induction hs arbitrary: n n')
  case Nil
  show ?case by simp
next
  case (Cons h hs)
  show ?case
    unfolding convert_high_level_names_Cons map_append
    using convert_server_tests_erase [of clk n ts clk' n']
      Cons.IH [of "snd (convert_server_tests clk n ts)" "snd (convert_server_tests clk' n' ts)"]
    by (simp only:)
qed

lemma convert_obj_ids_erase:
  assumes "test_results j = test_results j'"
  shows "erase_tests (convert_obj_ids clk n j ty ids) = erase_tests (convert_obj_ids clk' n' j' ty ids)"
proof (induction ids arbitrary: n n')
  case Nil
  show ?case by (simp add: erase_tests_def)
next
  case (Cons obj_id ids)
  show ?case
  proof (cases "dict_get (test_results j') ty")
    case (Inl e)
    with assms show ?thesis by (simp add: erase_tests_def)
  next
    case (Inr d)
    note d = this
    show ?thesis
    proof (cases "dict_get d obj_id")
      case (Inl e)
      with assms d show ?thesis by (simp add: erase_tests_def)
    next
      case (Inr server_tests)
      let ?hs = "str_iter available_tests"
      obtain a n1 where a: "convert_high_level_names clk n ?hs server_tests = (a, n1)"
        by (rule prod.exhaust)
      obtain a' n1' where a': "convert_high_level_names clk' n' ?hs server_tests = (a', n1')"
        by (rule prod.exhaust)
      from convert_high_level_names_erase [of clk n ?hs server_tests clk' n'] a a'
      have aa: "map erase_test a = map erase_test a'" by simp
      from Cons.IH [of n1 n1'] aa
      show ?thesis
        using assms d Inr a a'
        by (cases "convert_obj_ids clk n1 j ty ids"; cases "convert_obj_ids clk' n1' j' ty ids")
           (auto simp: erase_tests_def)
    qed
  qed
qed

lemma convert_phase_erase:
  assumes "test_results j = test_results j'"
  shows "map_sum id (\<lambda>r. erase_phase (fst r)) (convert_phase clk n j ty)
       = map_sum id (\<lambda>r. erase_phase (fst r)) (convert_phase clk' n' j' ty)"
proof (cases "dict_get (test_results j') ty")
  case (Inl e)
  with assms show ?thesis by (simp add: convert_phase_def)
next
  case (Inr d)
  from convert_obj_ids_erase [OF assms, of clk "Suc n" ty "dict_keys d" clk' "Suc n'"]
  show ?thesis
    using assms Inr
    by (cases "convert_obj_ids clk (Suc n) j ty (dict_keys d)";
        cases "convert_obj_ids clk' (Suc n') j' ty (dict_keys d)")
       (auto simp: convert_phase_def erase_tests_def erase_phase_def)
qed

lemma convert_obj_types_erase:
  assumes "test_results j = test_results j'"
  shows "erase_phases (convert_obj_types clk n j tys) = erase_phases (convert_obj_types clk' n' j' tys)"
proof (induction tys arbitrary: n n')
  case Nil
  show ?case by (simp add: erase_phases_def)
next
  case (Cons ty tys)
  from convert_phase_erase [OF assms, of clk n ty clk' n']
  show ?case
  proof (cases "convert_phase clk n j ty"; cases "convert_phase clk' n' j' ty")
    fix p p'
    assume p: "convert_phase clk n j ty = Inr p" and p': "convert_phase clk' n' j' ty = Inr p'"
    assume "map_sum id (\<lambda>r. erase_phase (fst r)) (convert_phase clk n j ty)
       = map_sum id (\<lambda>r. erase_phase (fst r)) (convert_phase clk' n' j' ty)"
    with p p' have e: "erase_phase (fst p) = erase_phase (fst p')" by simp
    from Cons.IH [of "snd p" "snd p'"] e p p'
    show ?thesis
      by (cases p; cases p'; cases "convert_obj_types clk (snd p) j tys";
          cases "convert_obj_types clk' (snd p') j' tys")
         (auto simp: erase_phases_def)
  qed (auto simp: erase_phases_def)
qed

text \<open>
  C7. Two conversions of the same raw result tree, started at any two times and reading
  any two clocks, give the same result once the start and end timestamps of the report, of
  its phases, of their tests and of their cases are removed: the same report, or the same
  exception.
\<close>

theorem convert_report_format_idempotent:
  "erase_result (convert_report_format clk n json) = erase_result (convert_report_format clk' n' json)"
proof -
  let ?tys = "[''projects'', ''studies'', ''expressions'', ''continuous'']"
  have "erase_phases (convert_obj_types clk (Suc n) json ?tys)
      = erase_phases (convert_obj_types clk' (Suc n') json ?tys)"
    by (rule convert_obj_types_erase) simp
  then show ?thesis
    unfolding convert_report_format_def erase_result_def erase_phases_def
    by (cases "convert_obj_types clk (Suc n) json ?tys";
        cases "convert_obj_types clk' (Suc n') json ?tys")
       (auto simp: erase_report_def simp del: convert_obj_types.simps)
qed

text \<open>
  C10. Two raw result trees that agree on \<open>"server_name"\<close>, \<open>"base_url"\<close> and
  \<open>"test_results"\<close> convert to the same result, timestamps aside, whatever each holds at
  \<open>"high_level_summary"\<close>.
\<close>

theorem convert_report_format_ignores_summary:
  assumes "server_name j1 = server_name j2" and "base_url j1 = base_url j2"
    and "test_results j1 = test_results j2"
  shows "erase_result (convert_report_format clk n j1) = erase_result (convert_report_format clk' n' j2)"
proof -
  let ?tys = "[''projects'', ''studies'', ''expressions'', ''continuous'']"
  have "erase_phases (convert_obj_types clk (Suc n) j1 ?tys)
      = erase_phases (convert_obj_types clk' (Suc n') j2 ?tys)"
    using assms(3) by (rule convert_obj_types_erase)
  then show ?thesis
    unfolding convert_report_format_def erase_result_def erase_phases_def
    using assms(1,2)
    by (cases "convert_obj_types clk (Suc n) j1 ?tys";
        cases "convert_obj_types clk' (Suc n') j2 ?tys")
       (auto simp: erase_report_def simp del: convert_obj_types.simps)
qed

theorem convert_report_format_ignores_summary_witness:
  "server_name passed_tree = server_name (passed_tree\<lparr>high_level_summary := Some character_entries\<rparr>)
   \<and> base_url passed_tree = base_url (passed_tree\<lparr>high_level_summary := Some character_entries\<rparr>)
   \<and> test_results passed_tree
       = test_results (passed_tree\<lparr>high_level_summary := Some character_entries\<rparr>)
   \<and> high_level_summary passed_tree
       \<noteq> high_level_summary (passed_tree\<lparr>high_level_summary := Some character_entries\<rparr>)
   \<and> erase_result (convert_report_format tick 0 passed_tree)
       = erase_result (convert_report_format tick 7
           (passed_tree\<lparr>high_level_summary := Some character_entries\<rparr>))"
proof -
  let ?j2 = "passed_tree\<lparr>high_level_summary := Some character_entries\<rparr>"
  have h1: "server_name passed_tree = server_name ?j2" by simp
  have h2: "base_url passed_tree = base_url ?j2" by simp
  have h3: "test_results passed_tree = test_results ?j2" by simp
  have h4: "high_level_summary passed_tree \<noteq> high_level_summary ?j2"
    by (simp add: passed_tree_def tree_of_def)
  from convert_report_format_ignores_summary [OF h1 h2 h3, of tick 0 tick 7] h4
  show ?thesis by simp
qed

subsection \<open>The phases\<close>

lemma convert_phase_name: "convert_phase clk n j ty = Inr (p, m) \<Longrightarrow> phase_name p = ty"
  by (auto simp: convert_phase_def split: sum.splits prod.splits)

lemma convert_obj_types_names:
  "convert_obj_types clk n j tys = Inr (ps, m) \<Longrightarrow> map phase_name ps = tys"
proof (induction tys arbitrary: n ps m)
  case Nil
  then show ?case by simp
next
  case (Cons ty tys)
  from Cons.prems obtain p n1 rest where
    p: "convert_phase clk n j ty = Inr (p, n1)" and
    rest: "convert_obj_types clk n1 j tys = Inr (rest, m)" and ps: "ps = p # rest"
    by (auto split: sum.splits prod.splits)
  from convert_phase_name [OF p] Cons.IH [OF rest] ps show ?case by simp
qed

text \<open>
  C6. A report that \<open>convert_report_format\<close> returns has exactly four phases, named
  projects, studies, expressions and continuous, in this order.
\<close>

theorem convert_report_format_phases:
  assumes "convert_report_format clk n json = Inr r"
  shows "map phase_name (phases r) = [''projects'', ''studies'', ''expressions'', ''continuous'']"
proof -
  let ?tys = "[''projects'', ''studies'', ''expressions'', ''continuous'']"
  from assms obtain ps m where ps: "convert_obj_types clk (Suc n) json ?tys = Inr (ps, m)"
    and r: "phases r = ps"
    unfolding convert_report_format_def
    by (cases "convert_obj_types clk (Suc n) json ?tys") auto
  from convert_obj_types_names [OF ps] r show ?thesis by (simp only:)
qed

theorem convert_report_format_phases_witness:
  "convert_report_format tick 0 skipped_tree = Inr skipped_report
   \<and> map phase_name (phases skipped_report)
       = [''projects'', ''studies'', ''expressions'', ''continuous'']"
proof -
  have h: "convert_report_format tick 0 skipped_tree = Inr skipped_report"
    by code_simp
  from convert_report_format_phases [OF h] h show ?thesis by (simp only:)
qed

subsection \<open>When the converter returns\<close>

lemma convert_obj_ids_returns:
  "dict_get (test_results j) ty = Inr d \<Longrightarrow> set ids \<subseteq> set (dict_keys d) \<Longrightarrow>
     \<exists>r. convert_obj_ids clk n j ty ids = Inr r"
proof (induction ids arbitrary: n)
  case Nil
  show ?case by simp
next
  case (Cons obj_id ids)
  from Cons.prems(2) dict_get_keys [of obj_id d]
  obtain ts where ts: "dict_get d obj_id = Inr ts" by auto
  obtain a n1 where a: "convert_high_level_names clk n (str_iter available_tests) ts = (a, n1)"
    by (rule prod.exhaust)
  from Cons.IH [OF Cons.prems(1), of n1] Cons.prems(2)
  obtain r where "convert_obj_ids clk n1 j ty ids = Inr r" by auto
  with Cons.prems(1) ts a show ?case by (cases r) simp
qed

lemma convert_phase_returns:
  "(\<exists>r. convert_phase clk n j ty = Inr r) \<longleftrightarrow> ty \<in> set (dict_keys (test_results j))"
proof
  assume "\<exists>r. convert_phase clk n j ty = Inr r"
  then obtain d where "dict_get (test_results j) ty = Inr d"
    by (cases "dict_get (test_results j) ty") (auto simp: convert_phase_def)
  then show "ty \<in> set (dict_keys (test_results j))" by (rule dict_get_Inr_key)
next
  assume "ty \<in> set (dict_keys (test_results j))"
  with dict_get_keys obtain d where d: "dict_get (test_results j) ty = Inr d" by blast
  from convert_obj_ids_returns [OF d, of "dict_keys d" clk "Suc n"]
  obtain r where "convert_obj_ids clk (Suc n) j ty (dict_keys d) = Inr r" by auto
  with d show "\<exists>r. convert_phase clk n j ty = Inr r"
    by (cases r) (simp add: convert_phase_def)
qed

lemma convert_obj_types_returns:
  "(\<exists>r. convert_obj_types clk n j tys = Inr r) \<longleftrightarrow> set tys \<subseteq> set (dict_keys (test_results j))"
proof (induction tys arbitrary: n)
  case Nil
  show ?case by simp
next
  case (Cons ty tys)
  show ?case
  proof (cases "convert_phase clk n j ty")
    case (Inl e)
    with convert_phase_returns [of clk n j ty] show ?thesis by auto
  next
    case (Inr p)
    with convert_phase_returns [of clk n j ty]
    have ty: "ty \<in> set (dict_keys (test_results j))" by auto
    obtain ph n1 where p: "p = (ph, n1)" by (rule prod.exhaust)
    from Cons.IH [of n1] Inr p ty show ?thesis
      by (cases "convert_obj_types clk n1 j tys") auto
  qed
qed

lemma convert_report_format_returns:
  "(\<exists>r. convert_report_format clk n j = Inr r) \<longleftrightarrow>
     set [''projects'', ''studies'', ''expressions'', ''continuous''] \<subseteq> set (dict_keys (test_results j))"
proof -
  let ?tys = "[''projects'', ''studies'', ''expressions'', ''continuous'']"
  have "(\<exists>r. convert_report_format clk n j = Inr r) \<longleftrightarrow>
        (\<exists>r. convert_obj_types clk (Suc n) j ?tys = Inr r)"
    unfolding convert_report_format_def
    by (cases "convert_obj_types clk (Suc n) j ?tys") auto
  with convert_obj_types_returns [of clk "Suc n" j ?tys] show ?thesis by (simp only:)
qed

subsection \<open>Where the tests and cases of the report come from\<close>

lemma convert_cases_from:
  "k \<in> set (fst (convert_cases clk n cs)) \<Longrightarrow> \<exists>c\<in>set cs. \<exists>m. k = fst (convert_case clk m c)"
proof (induction cs arbitrary: n)
  case Nil
  then show ?case by simp
next
  case (Cons c cs)
  from Cons.prems
  have "k = fst (convert_case clk n c)
        \<or> k \<in> set (fst (convert_cases clk (snd (convert_case clk n c)) cs))"
    by (simp only: convert_cases_Cons set_simps insert_iff)
  with Cons.IH show ?case by auto
qed

lemma convert_cases_to:
  "c \<in> set cs \<Longrightarrow> \<exists>m. fst (convert_case clk m c) \<in> set (fst (convert_cases clk n cs))"
proof (induction cs arbitrary: n)
  case Nil
  then show ?case by simp
next
  case (Cons c' cs)
  show ?case
  proof (cases "c = c'")
    case True
    have "fst (convert_case clk n c') \<in> set (fst (convert_cases clk n (c' # cs)))"
      by (simp only: convert_cases_Cons list.set_intros)
    with True show ?thesis by blast
  next
    case False
    with Cons.prems have "c \<in> set cs" by simp
    from Cons.IH [OF this, of "snd (convert_case clk n c')"]
    obtain m where "fst (convert_case clk m c)
        \<in> set (fst (convert_cases clk (snd (convert_case clk n c')) cs))" ..
    then have "fst (convert_case clk m c) \<in> set (fst (convert_cases clk n (c' # cs)))"
      by (simp only: convert_cases_Cons list.set_intros)
    then show ?thesis ..
  qed
qed


lemma convert_server_tests_to:
  "t \<in> set ts \<Longrightarrow> \<exists>m. fst (convert_test clk m t) \<in> set (fst (convert_server_tests clk n ts))"
proof (induction ts arbitrary: n)
  case Nil
  then show ?case by simp
next
  case (Cons t' ts)
  show ?case
  proof (cases "t = t'")
    case True
    have "fst (convert_test clk n t') \<in> set (fst (convert_server_tests clk n (t' # ts)))"
      by (simp only: convert_server_tests_Cons list.set_intros)
    with True show ?thesis by blast
  next
    case False
    with Cons.prems have "t \<in> set ts" by simp
    from Cons.IH [OF this, of "snd (convert_test clk n t')"]
    obtain m where "fst (convert_test clk m t)
        \<in> set (fst (convert_server_tests clk (snd (convert_test clk n t')) ts))" ..
    then have "fst (convert_test clk m t) \<in> set (fst (convert_server_tests clk n (t' # ts)))"
      by (simp only: convert_server_tests_Cons list.set_intros)
    then show ?thesis ..
  qed
qed


lemma convert_high_level_names_to:
  "hs \<noteq> [] \<Longrightarrow> t \<in> set ts \<Longrightarrow>
     \<exists>m. fst (convert_test clk m t) \<in> set (fst (convert_high_level_names clk n hs ts))"
proof -
  assume "hs \<noteq> []" and t: "t \<in> set ts"
  then obtain h rest where hs: "hs = h # rest" by (cases hs) auto
  from convert_server_tests_to [OF t, of clk n]
  obtain m where "fst (convert_test clk m t) \<in> set (fst (convert_server_tests clk n ts))" ..
  then have "fst (convert_test clk m t) \<in> set (fst (convert_high_level_names clk n (h # rest) ts))"
    by (simp only: convert_high_level_names_Cons set_append Un_iff simp_thms)
  with hs show ?thesis by blast
qed

lemma convert_server_tests_length:
  "length (fst (convert_server_tests clk n ts)) = length ts"
proof (induction ts arbitrary: n)
  case Nil
  show ?case by simp
next
  case (Cons t ts)
  show ?case
    unfolding convert_server_tests_Cons using Cons.IH by simp
qed

lemma convert_high_level_names_length:
  "length (fst (convert_high_level_names clk n hs ts)) = length hs * length ts"
proof (induction hs arbitrary: n)
  case Nil
  show ?case by simp
next
  case (Cons h hs)
  show ?case
    unfolding convert_high_level_names_Cons
    using Cons.IH by (simp add: convert_server_tests_length)
qed


lemma convert_obj_ids_to:
  assumes "dict_get (test_results j) ty = Inr d"
  shows "convert_obj_ids clk n j ty ids = Inr (tests, n') \<Longrightarrow> obj_id \<in> set ids \<Longrightarrow>
     dict_get d obj_id = Inr ts \<Longrightarrow> t \<in> set ts \<Longrightarrow>
     \<exists>m. fst (convert_test clk m t) \<in> set tests"
proof (induction ids arbitrary: n tests)
  case Nil
  then show ?case by simp
next
  case (Cons obj_id' ids)
  from Cons.prems(1) assms obtain ts' a n1 rest where
    ts': "dict_get d obj_id' = Inr ts'" and
    a: "convert_high_level_names clk n (str_iter available_tests) ts' = (a, n1)" and
    rest: "convert_obj_ids clk n1 j ty ids = Inr (rest, n')" and
    tests: "tests = a @ rest"
    by (auto split: sum.splits prod.splits)
  show ?case
  proof (cases "obj_id = obj_id'")
    case True
    with ts' Cons.prems(3) have "ts' = ts" by simp
    have "str_iter available_tests \<noteq> []" by (simp add: str_iter_def available_tests_def)
    from convert_high_level_names_to [OF this Cons.prems(4), of clk n] a \<open>ts' = ts\<close>
    obtain m where "fst (convert_test clk m t) \<in> set a" by auto
    with tests show ?thesis by auto
  next
    case False
    with Cons.prems(2) have "obj_id \<in> set ids" by simp
    from Cons.IH [OF rest this Cons.prems(3) Cons.prems(4)] tests show ?thesis by auto
  qed
qed


lemma convert_obj_types_to:
  "convert_obj_types clk n j tys = Inr (ps, n') \<Longrightarrow> ty \<in> set tys \<Longrightarrow>
     dict_get (test_results j) ty = Inr d \<Longrightarrow> dict_get d obj_id = Inr ts \<Longrightarrow> t \<in> set ts \<Longrightarrow>
     \<exists>p m. p \<in> set ps \<and> phase_name p = ty \<and> fst (convert_test clk m t) \<in> set (phase_tests p)"
proof (induction tys arbitrary: n ps)
  case Nil
  then show ?case by simp
next
  case (Cons ty' tys)
  from Cons.prems(1) obtain p1 n1 rest where
    p1: "convert_phase clk n j ty' = Inr (p1, n1)" and
    rest: "convert_obj_types clk n1 j tys = Inr (rest, n')" and ps: "ps = p1 # rest"
    by (auto split: sum.splits prod.splits)
  show ?case
  proof (cases "ty = ty'")
    case True
    from p1 True Cons.prems(3) obtain tests n2 where
      t: "convert_obj_ids clk (Suc n) j ty (dict_keys d) = Inr (tests, n2)" and
      pt: "phase_tests p1 = tests" and pn: "phase_name p1 = ty"
      by (auto simp: convert_phase_def split: sum.splits prod.splits)
    from dict_get_Inr_key [OF Cons.prems(4)] have "obj_id \<in> set (dict_keys d)" .
    from convert_obj_ids_to [OF Cons.prems(3) t this Cons.prems(4) Cons.prems(5)]
    obtain m where "fst (convert_test clk m t) \<in> set tests" ..
    with pt pn ps show ?thesis by auto
  next
    case False
    with Cons.prems(2) have "ty \<in> set tys" by simp
    from Cons.IH [OF rest this Cons.prems(3) Cons.prems(4) Cons.prems(5)] ps
    show ?thesis by auto
  qed
qed

subsection \<open>Cases\<close>


lemma failed_tree_report: "convert_report_format tick 0 failed_tree = Inr failed_report"
  by code_simp




text \<open>
  C3. The conversion of a tree with one project instance and one test record: the phase
  projects has eleven tests, one for each character of \<open>project_get\<close>, all made from that
  one record.
\<close>

theorem convert_report_format_repeats_tests:
  "map_sum id (\<lambda>r. map (\<lambda>p. (phase_name p, map test_name (phase_tests p))) (phases r))
     (convert_report_format tick 0 failed_tree)
   = Inr [(''projects'', replicate 11 ''project_get''), (''studies'', []),
          (''expressions'', []), (''continuous'', [])]"
  by code_simp

text \<open>
  C2 fails as stated. A case record with status 7 under a failed test: the conversion
  returns a report, and the cases made from the record have no status set.
\<close>

theorem unmapped_status_counterexample:
  "cr_status case_status7 = 7
   \<and> tr_cases project_get_status7 = [case_status7]
   \<and> map_sum id
     (\<lambda>r. map (\<lambda>p. map (\<lambda>g. map (\<lambda>k. (case_name k, case_status k)) (test_cases g)) (phase_tests p))
            (phases r))
     (convert_report_format tick 0 status7_tree)
   = Inr [replicate 11 [(''status code'', None)], [], [], []]"
  by code_simp

text \<open>
  C2, as the code has it. In a tree that has the four object types, a case record under a
  test record whose result is not 0 raises nothing, whatever its status: the report is
  returned, and it holds a case with the record's name, description, summary and audit
  entries. The status of that case is pass, skip, fail or unknown for the codes 1, 0, -1
  and 2, and is not set for any other code.
\<close>

theorem convert_report_format_case_status:
  assumes "set [''projects'', ''studies'', ''expressions'', ''continuous'']
             \<subseteq> set (dict_keys (test_results json))"
    and "obj_type \<in> set [''projects'', ''studies'', ''expressions'', ''continuous'']"
    and "dict_get (test_results json) obj_type = Inr d"
    and "dict_get d obj_id = Inr ts" and "t \<in> set ts" and "tr_result t \<noteq> 0"
    and "c \<in> set (tr_cases t)"
  shows "\<exists>r p g k. convert_report_format clk n json = Inr r
           \<and> p \<in> set (phases r) \<and> phase_name p = obj_type
           \<and> g \<in> set (phase_tests p) \<and> k \<in> set (test_cases g)
           \<and> case_name k = cr_name c \<and> case_description k = cr_description c
           \<and> case_message k = cr_summary c \<and> log_messages k = cr_audit c
           \<and> case_status k =
               (if cr_status c = 1 then Some PASS
                else if cr_status c = 0 then Some SKIP
                else if cr_status c = - 1 then Some FAIL
                else if cr_status c = 2 then Some UNKNOWN
                else None)"
proof -
  let ?tys = "[''projects'', ''studies'', ''expressions'', ''continuous'']"
  from convert_report_format_returns [of clk n json] assms(1)
  obtain r where r: "convert_report_format clk n json = Inr r" by blast
  then obtain ps n' where ps: "convert_obj_types clk (Suc n) json ?tys = Inr (ps, n')"
    and rp: "phases r = ps"
    unfolding convert_report_format_def
    by (cases "convert_obj_types clk (Suc n) json ?tys") auto
  from convert_obj_types_to [OF ps assms(2) assms(3) assms(4) assms(5)]
  obtain p m where p: "p \<in> set ps" and pn: "phase_name p = obj_type"
    and g: "fst (convert_test clk m t) \<in> set (phase_tests p)"
    by blast
  from assms(6) have tc: "test_cases (fst (convert_test clk m t)) = fst (convert_cases clk m (tr_cases t))"
    by (simp add: convert_test_def split: prod.splits)
  from convert_cases_to [OF assms(7), of clk m]
  obtain m' where k: "fst (convert_case clk m' c) \<in> set (fst (convert_cases clk m (tr_cases t)))" ..
  let ?k = "fst (convert_case clk m' c)"
  have st: "case_status ?k =
               (if cr_status c = 1 then Some PASS
                else if cr_status c = 0 then Some SKIP
                else if cr_status c = - 1 then Some FAIL
                else if cr_status c = 2 then Some UNKNOWN
                else None)"
    by (simp add: convert_case_def update_status_def)
  have "case_name ?k = cr_name c" "case_description ?k = cr_description c"
    "case_message ?k = cr_summary c" "log_messages ?k = cr_audit c"
    by (simp_all add: convert_case_def add_log_messages_append)
  with r rp p pn g tc k st show ?thesis by metis
qed

theorem convert_report_format_case_status_witness:
  "set [''projects'', ''studies'', ''expressions'', ''continuous'']
     \<subseteq> set (dict_keys (test_results status7_tree))
   \<and> dict_get (test_results status7_tree) ''projects'' = Inr [(''123456789'', [project_get_status7])]
   \<and> dict_get [(''123456789'', [project_get_status7])] ''123456789'' = Inr [project_get_status7]
   \<and> tr_result project_get_status7 \<noteq> 0
   \<and> case_status7 \<in> set (tr_cases project_get_status7)
   \<and> cr_status case_status7 = 7
   \<and> (\<exists>r p g k. convert_report_format tick 0 status7_tree = Inr r
           \<and> p \<in> set (phases r) \<and> phase_name p = ''projects''
           \<and> g \<in> set (phase_tests p) \<and> k \<in> set (test_cases g)
           \<and> case_name k = cr_name case_status7 \<and> case_description k = cr_description case_status7
           \<and> case_message k = cr_summary case_status7 \<and> log_messages k = cr_audit case_status7
           \<and> case_status k = None)"
proof -
  have h1: "set [''projects'', ''studies'', ''expressions'', ''continuous'']
     \<subseteq> set (dict_keys (test_results status7_tree))"
    by code_simp
  have h2: "''projects'' \<in> set [''projects'', ''studies'', ''expressions'', ''continuous'']"
    by simp
  have h3: "dict_get (test_results status7_tree) ''projects'' = Inr [(''123456789'', [project_get_status7])]"
    by (simp add: status7_tree_def tree_of_def dict_get_def)
  have h4: "dict_get [(''123456789'', [project_get_status7])] ''123456789'' = Inr [project_get_status7]"
    by (simp add: dict_get_def)
  have h5: "project_get_status7 \<in> set [project_get_status7]" by simp
  have h6: "tr_result project_get_status7 \<noteq> 0"
    by (simp add: project_get_status7_def project_get_failed_def)
  have h7: "case_status7 \<in> set (tr_cases project_get_status7)"
    by (simp add: project_get_status7_def)
  have h8: "cr_status case_status7 = 7"
    by (simp add: case_status7_def)
  from convert_report_format_case_status [OF h1 h2 h3 h4 h5 h6 h7, of tick 0]
  have "\<exists>r p g k. convert_report_format tick 0 status7_tree = Inr r
           \<and> p \<in> set (phases r) \<and> phase_name p = ''projects''
           \<and> g \<in> set (phase_tests p) \<and> k \<in> set (test_cases g)
           \<and> case_name k = cr_name case_status7 \<and> case_description k = cr_description case_status7
           \<and> case_message k = cr_summary case_status7 \<and> log_messages k = cr_audit case_status7
           \<and> case_status k = None"
    by (simp add: h8)
  with h1 h3 h4 h6 h7 h8 show ?thesis by (simp only: simp_thms)
qed

section \<open>The command\<close>

lemma report_no_config:
  assumes "user_config args = None \<or> user_config args = Some []"
  shows "report rest args =
           ([LogInfo ''starting RNAGet compliance testing'', EchoHelp,
             Print ([CHR 0x0A]
               @ ''No user config file provided. Specify path to yaml file with -c''
               @ [CHR 0x0A])], 1)"
  using assms by (auto simp: report_def report_checks_def report_handlers_def)

lemma report_uptime_not_isdigit:
  assumes "user_config args = Some path" and "path \<noteq> []" and "\<not> isdigit (uptime args)"
  shows "report rest args =
           ([LogInfo ''starting RNAGet compliance testing'',
             LogInfo (''parsing config file: '' @ path), StdoutFlush, EchoHelp,
             Print ([CHR 0x0A] @ ''Server uptime is not a valid integer.'' @ [CHR 0x0A])], 1)"
  using assms by (simp add: report_def report_checks_def report_handlers_def)

lemma report_checks_passed:
  assumes "user_config args = Some path" and "path \<noteq> []" and "isdigit (uptime args)"
  shows "report rest args =
           report_handlers
             (LogInfo ''starting RNAGet compliance testing''
              # LogInfo (''parsing config file: '' @ path) # StdoutFlush # fst (rest args))
             (snd (rest args))"
  using assms by (simp add: report_def report_checks_def split: prod.splits)

text \<open>
  C8. With a user config file given and an uptime that is not a string of decimal digits,
  the one character U+00B2: \<open>isdigit\<close> holds, no usage message is printed, the tests start
  and the exit code is 0.
\<close>

theorem report_superscript_uptime:
  "\<not> list_all decimal_digit (uptime superscript_args)
   \<and> report tests_then_return superscript_args =
       ([LogInfo ''starting RNAGet compliance testing'',
         LogInfo ''parsing config file: config.yaml'', StdoutFlush, TestsStarted], 0)"
  by code_simp

end
